theory Spec2Isabelle
  imports Complex_Main
begin

section \<open>cryojax.simulator.pose: coordinate rotations and translations\<close>

text \<open>
  A shallow embedding of \<^verbatim>\<open>src/cryojax/simulator/pose.py\<close>.

  Modelling decisions:
  \<^item> A \<^verbatim>\<open>Real_\<close> scalar is a HOL \<open>real\<close> and a complex array entry a HOL \<open>complex\<close>:
    the arithmetic is the exact one, rounding is not modelled.
  \<^item> A JAX array is a record of its \<open>shape\<close> and of its entries in row-major order
    (\<open>data\<close>); \<open>reshape\<close> keeps the entries and changes the shape.
  \<^item> The class \<^verbatim>\<open>jaxlie.SO3\<close> is not part of the repository. Its interface is a
    parameter \<open>lib\<close> of every function that uses it, so that the theorems hold for
    every implementation of the interface. One implementation over the reals
    (\<open>SO3_quat\<close>, quaternions in \<open>(w, x, y, z)\<close> order) is given to evaluate the functions
    at concrete inputs.
  \<^item> Every \<^verbatim>\<open>raise\<close> of the Python, and every refusal of a library call, is a value
    \<open>Inl e\<close> of the result.
  \<^item> A \<^verbatim>\<open>cached_property\<close> is the function it caches: the objects are immutable.
  \<^item> A convention string is a list of characters, one per character of the Python
    string (ASCII).
\<close>

subsection \<open>Errors\<close>

datatype error =
    ValueError string      \<comment> \<open>\<^verbatim>\<open>raise ValueError(msg)\<close> in \<^verbatim>\<open>rotate_coordinates\<close>\<close>
  | AttributeError string  \<comment> \<open>\<^verbatim>\<open>getattr\<close> of a name the class does not have\<close>
  | IndexError             \<comment> \<open>a list read out of range\<close>
  | ReshapeError           \<comment> \<open>\<^verbatim>\<open>reshape\<close> to a shape of another size\<close>
  | MatmulError            \<comment> \<open>\<^verbatim>\<open>jnp.matmul\<close> of operands whose contracted dimensions differ\<close>
  | ApplyError             \<comment> \<open>\<^verbatim>\<open>SO3.apply\<close> of a target that is not of shape \<open>(3,)\<close>\<close>

subsection \<open>Arrays\<close>

record 'a ndarray =
  shape :: "nat list"
  data :: "'a list"

definition wf_array :: "'a ndarray \<Rightarrow> bool" where
  "wf_array a = (length (data a) = prod_list (shape a))"

text \<open>The \<open>n\<close> consecutive rows of width \<open>k\<close> of a row-major buffer.\<close>

definition rows :: "nat \<Rightarrow> nat \<Rightarrow> 'a list \<Rightarrow> 'a list list" where
  "rows n k xs = map (\<lambda>i. take k (drop (i * k) xs)) [0..<n]"

text \<open>\<^verbatim>\<open>a.reshape(s)\<close>: refused when the sizes differ, the entries are kept.\<close>

definition reshape :: "'a ndarray \<Rightarrow> nat list \<Rightarrow> error + 'a ndarray" where
  "reshape a s =
     (if prod_list s = prod_list (shape a) then Inr (a\<lparr>shape := s\<rparr>) else Inl ReshapeError)"

text \<open>A Python list read at an index.\<close>

definition index :: "'a list \<Rightarrow> nat \<Rightarrow> error + 'a" where
  "index xs i = (if i < length xs then Inr (xs ! i) else Inl IndexError)"

text \<open>A list comprehension whose element expression can raise: the first error wins.\<close>

fun comprehension :: "('a \<Rightarrow> error + 'b) \<Rightarrow> 'a list \<Rightarrow> error + 'b list" where
  "comprehension f [] = Inr []"
| "comprehension f (x # xs) =
     (case f x of
        Inl e \<Rightarrow> Inl e
      | Inr y \<Rightarrow> (case comprehension f xs of Inl e \<Rightarrow> Inl e | Inr ys \<Rightarrow> Inr (y # ys)))"

subsection \<open>The interface of \<^verbatim>\<open>jaxlie.SO3\<close>\<close>

type_synonym vec3 = "real \<times> real \<times> real"

record 'r SO3_lib =
  from_x_radians :: "real \<Rightarrow> 'r"
  from_y_radians :: "real \<Rightarrow> 'r"
  from_z_radians :: "real \<Rightarrow> 'r"
  SO3_wxyz :: "real \<times> real \<times> real \<times> real \<Rightarrow> 'r"  \<comment> \<open>\<^verbatim>\<open>SO3(wxyz=...)\<close>\<close>
  SO3_multiply :: "'r \<Rightarrow> 'r \<Rightarrow> 'r"                    \<comment> \<open>\<^verbatim>\<open>R1 @ R2\<close>\<close>
  SO3_inverse :: "'r \<Rightarrow> 'r"                          \<comment> \<open>\<^verbatim>\<open>R.inverse()\<close>\<close>
  SO3_apply :: "'r \<Rightarrow> vec3 \<Rightarrow> vec3"                   \<comment> \<open>\<^verbatim>\<open>R.apply(target)\<close>\<close>

text \<open>
  \<^verbatim>\<open>getattr(SO3, name)\<close> for the names \<^verbatim>\<open>f"from_{axis}_radians"\<close> can build, \<open>axis\<close> being
  one character: the class has such an attribute for \<open>x\<close>, \<open>y\<close> and \<open>z\<close> only.
\<close>

definition getattr_SO3 :: "'r SO3_lib \<Rightarrow> string \<Rightarrow> error + (real \<Rightarrow> 'r)" where
  "getattr_SO3 lib name =
     (if name = ''from_x_radians'' then Inr (from_x_radians lib)
      else if name = ''from_y_radians'' then Inr (from_y_radians lib)
      else if name = ''from_z_radians'' then Inr (from_z_radians lib)
      else Inl (AttributeError name))"

definition vec_of_row :: "real list \<Rightarrow> vec3" where
  "vec_of_row row = (row ! 0, row ! 1, row ! 2)"

definition row_of_vec :: "vec3 \<Rightarrow> real list" where
  "row_of_vec v = (case v of (a, b, c) \<Rightarrow> [a, b, c])"

text \<open>
  \<^verbatim>\<open>jax.vmap(rotation.apply)(coords)\<close>: \<open>apply\<close> is traced once on a row, of shape
  \<open>shape[1:]\<close>, and refuses a row that is not of shape \<open>(3,)\<close>; the results are stacked
  along the leading axis.
\<close>

definition vmap_apply :: "'r SO3_lib \<Rightarrow> 'r \<Rightarrow> real ndarray \<Rightarrow> error + real ndarray" where
  "vmap_apply lib rotation coords =
     (if tl (shape coords) \<noteq> [3] then Inl ApplyError
      else Inr \<lparr>shape = [hd (shape coords), 3],
                data = concat (map (\<lambda>row. row_of_vec (SO3_apply lib rotation (vec_of_row row)))
                                   (rows (hd (shape coords)) 3 (data coords)))\<rparr>)"

subsection \<open>\<^verbatim>\<open>rotate_coordinates\<close>\<close>

definition rotate_coordinates ::
  "'r SO3_lib \<Rightarrow> real ndarray \<Rightarrow> 'r \<Rightarrow> error + real ndarray" where
  "rotate_coordinates lib coords rotation =
     (let shp = shape coords in
      if length shp = 2 then vmap_apply lib rotation coords
      else if length shp = 4 then
        (case reshape coords [shp ! 0 * shp ! 1 * shp ! 2, 3] of
           Inl e \<Rightarrow> Inl e
         | Inr flat \<Rightarrow>
             (case vmap_apply lib rotation flat of
                Inl e \<Rightarrow> Inl e
              | Inr transformed \<Rightarrow> reshape transformed [shp ! 0, shp ! 1, shp ! 2, 3]))
      else Inl (ValueError ''coords must either be shape (N, 3) or (N1, N2, N3, 3)''))"

subsection \<open>\<^verbatim>\<open>compute_shifts\<close>\<close>

text \<open>
  \<^verbatim>\<open>jnp.matmul(coords, xy)\<close> for a one-dimensional \<open>xy\<close>: the last axis of \<open>coords\<close> is
  contracted with \<open>xy\<close>, and must have its length.
\<close>

definition matmul_vec :: "real ndarray \<Rightarrow> real list \<Rightarrow> error + real ndarray" where
  "matmul_vec coords xy =
     (if shape coords = [] \<or> last (shape coords) \<noteq> length xy then Inl MatmulError
      else Inr \<lparr>shape = butlast (shape coords),
                data = map (\<lambda>row. sum_list (map2 (*) row xy))
                           (rows (prod_list (butlast (shape coords))) (length xy)
                              (data coords))\<rparr>)"

definition compute_shifts :: "real ndarray \<Rightarrow> real list \<Rightarrow> error + complex ndarray" where
  "compute_shifts coords xy =
     (case matmul_vec coords xy of
        Inl e \<Rightarrow> Inl e
      | Inr m \<Rightarrow>
          Inr \<lparr>shape = shape m,
               data = map (\<lambda>v. exp (- \<i> * complex_of_real (2 * pi * v))) (data m)\<rparr>)"

subsection \<open>\<^verbatim>\<open>make_euler_rotation\<close>\<close>

definition deg2rad :: "real \<Rightarrow> real" where
  "deg2rad x = x * (pi / 180)"

definition make_euler_rotation ::
  "'r SO3_lib \<Rightarrow> real \<Rightarrow> real \<Rightarrow> real \<Rightarrow> string \<Rightarrow> bool \<Rightarrow> bool \<Rightarrow> error + 'r" where
  "make_euler_rotation lib phi theta psi convention intrinsic degrees =
     (case comprehension (\<lambda>axis. getattr_SO3 lib (''from_'' @ [axis] @ ''_radians''))
             convention of
        Inl e \<Rightarrow> Inl e
      | Inr rotations \<Rightarrow>
          (let phi' = (if degrees then deg2rad phi else phi);
               theta' = (if degrees then deg2rad theta else theta);
               psi' = (if degrees then deg2rad psi else psi)
           in case index rotations 0 of
                Inl e \<Rightarrow> Inl e
              | Inr r1 \<Rightarrow>
                  (case index rotations 1 of
                     Inl e \<Rightarrow> Inl e
                   | Inr r2 \<Rightarrow>
                       (case index rotations 2 of
                          Inl e \<Rightarrow> Inl e
                        | Inr r3 \<Rightarrow>
                            (let R1 = r1 phi'; R2 = r2 theta'; R3 = r3 psi'
                             in Inr (if intrinsic
                                     then SO3_multiply lib (SO3_multiply lib R1 R2) R3
                                     else SO3_multiply lib (SO3_multiply lib R3 R2) R1))))))"

text \<open>The call with the defaults of the signature: \<^verbatim>\<open>"zyz"\<close>, intrinsic, radians.\<close>

definition make_euler_rotation_default :: "'r SO3_lib \<Rightarrow> real \<Rightarrow> real \<Rightarrow> real \<Rightarrow> error + 'r" where
  "make_euler_rotation_default lib phi theta psi =
     make_euler_rotation lib phi theta psi ''zyz'' True False"

subsection \<open>\<^verbatim>\<open>Pose\<close>, \<^verbatim>\<open>EulerPose\<close>, \<^verbatim>\<open>QuaternionPose\<close>\<close>

record Pose =
  offset_x :: real
  offset_y :: real
  offset_z :: real

record EulerPose = Pose +
  convention :: string
  intrinsic :: bool
  inverse_e :: bool    \<comment> \<open>the field \<^verbatim>\<open>inverse\<close> of \<^verbatim>\<open>EulerPose\<close>\<close>
  degrees :: bool
  view_phi :: real
  view_theta :: real
  view_psi :: real

record QuaternionPose = Pose +
  inverse_q :: bool    \<comment> \<open>the field \<^verbatim>\<open>inverse\<close> of \<^verbatim>\<open>QuaternionPose\<close>\<close>
  view_qw :: real
  view_qx :: real
  view_qy :: real
  view_qz :: real

text \<open>The objects built with every field at its default.\<close>

definition EulerPose_default :: EulerPose where
  "EulerPose_default =
     \<lparr>offset_x = 0, offset_y = 0, offset_z = 0,
      convention = ''zyz'', intrinsic = True, inverse_e = False, degrees = True,
      view_phi = 0, view_theta = 0, view_psi = 0\<rparr>"

definition QuaternionPose_default :: QuaternionPose where
  "QuaternionPose_default =
     \<lparr>offset_x = 0, offset_y = 0, offset_z = 0,
      inverse_q = False, view_qw = 1, view_qx = 0, view_qy = 0, view_qz = 0\<rparr>"

datatype pose = Euler EulerPose | Quaternion QuaternionPose

definition EulerPose_rotation :: "'r SO3_lib \<Rightarrow> EulerPose \<Rightarrow> error + 'r" where
  "EulerPose_rotation lib p =
     (case make_euler_rotation lib (view_phi p) (view_theta p) (view_psi p)
             (convention p) (intrinsic p) (degrees p) of
        Inl e \<Rightarrow> Inl e
      | Inr R \<Rightarrow> Inr (if inverse_e p then SO3_inverse lib R else R))"

definition QuaternionPose_rotation :: "'r SO3_lib \<Rightarrow> QuaternionPose \<Rightarrow> 'r" where
  "QuaternionPose_rotation lib p =
     (let wxyz = (view_qw p, view_qx p, view_qy p, view_qz p);
          R = SO3_wxyz lib wxyz
      in if inverse_q p then SO3_inverse lib R else R)"

fun rotation :: "'r SO3_lib \<Rightarrow> pose \<Rightarrow> error + 'r" where
  "rotation lib (Euler p) = EulerPose_rotation lib p"
| "rotation lib (Quaternion p) = Inr (QuaternionPose_rotation lib p)"

fun offset :: "pose \<Rightarrow> real list" where
  "offset (Euler p) = [offset_x p, offset_y p, offset_z p]"
| "offset (Quaternion p) = [offset_x p, offset_y p, offset_z p]"

definition rotate :: "'r SO3_lib \<Rightarrow> pose \<Rightarrow> real ndarray \<Rightarrow> bool \<Rightarrow> error + real ndarray" where
  "rotate lib p coordinates real' =
     (case rotation lib p of
        Inl e \<Rightarrow> Inl e
      | Inr R \<Rightarrow> rotate_coordinates lib coordinates (if real' then SO3_inverse lib R else R))"

text \<open>\<^verbatim>\<open>p.rotate(coordinates)\<close>: \<open>real\<close> defaults to \<open>True\<close>.\<close>

definition rotate_default :: "'r SO3_lib \<Rightarrow> pose \<Rightarrow> real ndarray \<Rightarrow> error + real ndarray" where
  "rotate_default lib p coordinates = rotate lib p coordinates True"

definition shifts :: "pose \<Rightarrow> real ndarray \<Rightarrow> error + complex ndarray" where
  "shifts p freqs = (let xy = take 2 (offset p) in compute_shifts freqs xy)"

subsection \<open>An implementation of the interface: quaternions over the reals\<close>

text \<open>
  \<^verbatim>\<open>jaxlie.SO3\<close> stores a quaternion \<open>(w, x, y, z)\<close>; it builds the rotation by \<open>\<theta>\<close> about an
  axis as \<open>cos (\<theta>/2)\<close> and \<open>sin (\<theta>/2)\<close> on that axis, multiplies by the Hamilton product,
  inverts by negating \<open>x, y, z\<close> and applies \<open>q\<close> to \<open>v\<close> as the vector part of
  \<open>q (0, v) q\<^sup>-\<^sup>1\<close>. It does not normalise the quaternion it is given.
\<close>

type_synonym quat = "real \<times> real \<times> real \<times> real"

definition quat_mul :: "quat \<Rightarrow> quat \<Rightarrow> quat" where
  "quat_mul p q =
     (case p of (w0, x0, y0, z0) \<Rightarrow> case q of (w1, x1, y1, z1) \<Rightarrow>
        (- x0 * x1 - y0 * y1 - z0 * z1 + w0 * w1,
         x0 * w1 + y0 * z1 - z0 * y1 + w0 * x1,
         - x0 * z1 + y0 * w1 + z0 * x1 + w0 * y1,
         x0 * y1 - y0 * x1 + z0 * w1 + w0 * z1))"

definition quat_inverse :: "quat \<Rightarrow> quat" where
  "quat_inverse q = (case q of (w, x, y, z) \<Rightarrow> (w, - x, - y, - z))"

definition quat_apply :: "quat \<Rightarrow> vec3 \<Rightarrow> vec3" where
  "quat_apply q v =
     (case v of (a, b, c) \<Rightarrow>
        case quat_mul (quat_mul q (0, a, b, c)) (quat_inverse q) of (w, x, y, z) \<Rightarrow> (x, y, z))"

definition SO3_quat :: "quat SO3_lib" where
  "SO3_quat =
     \<lparr>from_x_radians = (\<lambda>t. (cos (t / 2), sin (t / 2), 0, 0)),
      from_y_radians = (\<lambda>t. (cos (t / 2), 0, sin (t / 2), 0)),
      from_z_radians = (\<lambda>t. (cos (t / 2), 0, 0, sin (t / 2))),
      SO3_wxyz = (\<lambda>q. q),
      SO3_multiply = quat_mul,
      SO3_inverse = quat_inverse,
      SO3_apply = quat_apply\<rparr>"

subsection \<open>The properties, in the words of the specification\<close>

text \<open>
  A valid Coordinate Set: a well-formed array of shape \<open>(N, 3)\<close> or \<open>(N1, N2, N3, 3)\<close>.
  \<open>map_vectors f c\<close> is \<open>c\<close> with \<open>f\<close> applied to each of its 3-vectors, the shape kept.
\<close>

definition valid_coords :: "real ndarray \<Rightarrow> bool" where
  "valid_coords c =
     (wf_array c \<and> (length (shape c) = 2 \<or> length (shape c) = 4) \<and> last (shape c) = 3)"

definition map_vectors :: "(vec3 \<Rightarrow> vec3) \<Rightarrow> real ndarray \<Rightarrow> real ndarray" where
  "map_vectors f c =
     \<lparr>shape = shape c,
      data = concat (map (\<lambda>row. row_of_vec (f (vec_of_row row)))
                         (rows (prod_list (butlast (shape c))) 3 (data c)))\<rparr>"

text \<open>
  The elementary rotation about the axis a character names, and the composition the
  specification gives for the Euler parameterization.
\<close>

definition axis_chars :: "char set" where
  "axis_chars = {CHR ''x'', CHR ''y'', CHR ''z''}"

definition axis_rotation :: "'r SO3_lib \<Rightarrow> char \<Rightarrow> real \<Rightarrow> 'r" where
  "axis_rotation lib c =
     (if c = CHR ''x'' then from_x_radians lib
      else if c = CHR ''y'' then from_y_radians lib
      else from_z_radians lib)"

definition spec_euler_rotation ::
  "'r SO3_lib \<Rightarrow> char \<Rightarrow> char \<Rightarrow> char \<Rightarrow> real \<Rightarrow> real \<Rightarrow> real \<Rightarrow> bool \<Rightarrow> bool \<Rightarrow> 'r" where
  "spec_euler_rotation lib c0 c1 c2 phi theta psi intr deg =
     (let R1 = axis_rotation lib c0 (if deg then deg2rad phi else phi);
          R2 = axis_rotation lib c1 (if deg then deg2rad theta else theta);
          R3 = axis_rotation lib c2 (if deg then deg2rad psi else psi)
      in if intr then SO3_multiply lib (SO3_multiply lib R1 R2) R3
         else SO3_multiply lib (SO3_multiply lib R3 R2) R1)"

text \<open>The squared norm of a quaternion.\<close>

definition quat_norm2 :: "quat \<Rightarrow> real" where
  "quat_norm2 q = (case q of (w, x, y, z) \<Rightarrow> w * w + x * x + y * y + z * z)"

section \<open>Lemmas\<close>

subsection \<open>Rows of a buffer\<close>

lemma length_rows: "length (rows n k xs) = n"
  by (simp add: rows_def)

lemma rows_Suc: "rows (Suc n) k xs = take k xs # rows n k (drop k xs)"
proof -
  have "[0..<Suc n] = 0 # map Suc [0..<n]"
    by (simp add: upt_conv_Cons map_Suc_upt del: upt_Suc)
  then show ?thesis
    by (simp add: rows_def comp_def add.commute del: upt_Suc)
qed

lemma rows_0: "rows 0 k xs = []"
  by (simp add: rows_def)

lemma concat_rows: "length xs = n * k \<Longrightarrow> concat (rows n k xs) = xs"
  by (induction n arbitrary: xs) (simp_all add: rows_0 rows_Suc)

lemma rows_concat: "\<forall>r \<in> set rs. length r = k \<Longrightarrow> rows (length rs) k (concat rs) = rs"
  by (induction rs) (simp_all add: rows_0 rows_Suc)

lemma rows_width: "length xs = n * k \<Longrightarrow> \<forall>r \<in> set (rows n k xs). length r = k"
proof (induction n arbitrary: xs)
  case 0
  then show ?case by (simp add: rows_0)
next
  case (Suc n)
  have "length (drop k xs) = n * k" using Suc.prems by simp
  then have "\<forall>r \<in> set (rows n k (drop k xs)). length r = k" by (rule Suc.IH)
  moreover have "length (take k xs) = k" using Suc.prems by simp
  ultimately show ?case by (simp add: rows_Suc)
qed

lemma row_vec_row: "length r = 3 \<Longrightarrow> row_of_vec (vec_of_row r) = r"
proof -
  assume "length r = 3"
  then obtain a b c where "r = [a, b, c]"
    by (metis length_0_conv length_Suc_conv numeral_3_eq_3)
  then show ?thesis by (simp add: row_of_vec_def vec_of_row_def)
qed

lemma vec_row_vec: "vec_of_row (row_of_vec v) = v"
  by (cases v) (simp add: row_of_vec_def vec_of_row_def)

lemma length_row_of_vec: "length (row_of_vec v) = 3"
  by (cases v) (simp add: row_of_vec_def)

subsection \<open>\<^verbatim>\<open>rotate_coordinates\<close> on a valid Coordinate Set\<close>

lemma shape_rank2: "length s = 2 \<Longrightarrow> \<exists>a b. s = [a, b]"
proof -
  assume "length s = 2"
  then have "length s = Suc (Suc 0)" by simp
  then show ?thesis by (auto simp add: length_Suc_conv)
qed

lemma shape_rank4: "length s = 4 \<Longrightarrow> \<exists>a b c d. s = [a, b, c, d]"
proof -
  assume "length s = 4"
  then have "length s = Suc (Suc (Suc (Suc 0)))" by simp
  then show ?thesis by (auto simp add: length_Suc_conv)
qed

lemma prod_list_butlast: "s \<noteq> [] \<Longrightarrow> prod_list s = prod_list (butlast s) * last s"
  by (induction s) (auto simp add: mult.assoc)

lemma rotate_coordinates_cloud:
  "shape c = [n, 3] \<Longrightarrow> rotate_coordinates lib c R = Inr (map_vectors (SO3_apply lib R) c)"
  by (simp add: rotate_coordinates_def vmap_apply_def map_vectors_def)

lemma rotate_coordinates_grid:
  "shape c = [n1, n2, n3, 3] \<Longrightarrow>
   rotate_coordinates lib c R = Inr (map_vectors (SO3_apply lib R) c)"
  by (simp add: rotate_coordinates_def vmap_apply_def map_vectors_def reshape_def Let_def
      mult.assoc)

lemma rotate_coordinates_valid:
  assumes "valid_coords c"
  shows "rotate_coordinates lib c R = Inr (map_vectors (SO3_apply lib R) c)"
proof -
  from assms consider "length (shape c) = 2" "last (shape c) = 3"
    | "length (shape c) = 4" "last (shape c) = 3"
    by (auto simp add: valid_coords_def)
  then show ?thesis
  proof cases
    case 1
    then obtain n where "shape c = [n, 3]" using shape_rank2 [of "shape c"] by auto
    then show ?thesis by (rule rotate_coordinates_cloud)
  next
    case 2
    then obtain n1 n2 n3 where "shape c = [n1, n2, n3, 3]"
      using shape_rank4 [of "shape c"] by auto
    then show ?thesis by (rule rotate_coordinates_grid)
  qed
qed

lemma valid_coords_length:
  assumes "valid_coords c"
  shows "length (data c) = prod_list (butlast (shape c)) * 3"
proof -
  have "shape c \<noteq> []" using assms by (auto simp add: valid_coords_def)
  then have "prod_list (shape c) = prod_list (butlast (shape c)) * last (shape c)"
    by (rule prod_list_butlast)
  then show ?thesis using assms by (simp add: valid_coords_def wf_array_def)
qed

lemma valid_map_vectors: "valid_coords c \<Longrightarrow> valid_coords (map_vectors f c)"
proof -
  assume v: "valid_coords c"
  let ?n = "prod_list (butlast (shape c))"
  have "length (concat (map (\<lambda>row. row_of_vec (f (vec_of_row row))) (rows ?n 3 (data c)))) = ?n * 3"
    by (simp add: length_concat comp_def length_row_of_vec length_rows sum_list_triv)
  moreover have "prod_list (shape c) = ?n * 3" using valid_coords_length [OF v] v
    by (simp add: valid_coords_def wf_array_def)
  ultimately show ?thesis using v by (simp add: valid_coords_def map_vectors_def wf_array_def)
qed

lemma map_vectors_inverse:
  assumes v: "valid_coords c" and fg: "\<forall>v. f (g v) = v"
  shows "map_vectors f (map_vectors g c) = c"
proof -
  let ?n = "prod_list (butlast (shape c))"
  let ?F = "\<lambda>row. row_of_vec (f (vec_of_row row))"
  let ?G = "\<lambda>row. row_of_vec (g (vec_of_row row))"
  let ?rs = "rows ?n 3 (data c)"
  have len: "length (data c) = ?n * 3" by (rule valid_coords_length [OF v])
  have w: "\<forall>r \<in> set ?rs. length r = 3" by (rule rows_width [OF len])
  have "\<forall>r \<in> set (map ?G ?rs). length r = 3" by (simp add: length_row_of_vec)
  then have "rows (length (map ?G ?rs)) 3 (concat (map ?G ?rs)) = map ?G ?rs"
    by (rule rows_concat)
  then have r1: "rows ?n 3 (concat (map ?G ?rs)) = map ?G ?rs" by (simp add: length_rows)
  have "map ?F (map ?G ?rs) = map (\<lambda>r. r) ?rs"
    unfolding map_map comp_def
  proof (rule map_cong [OF refl])
    fix r assume "r \<in> set ?rs"
    then have "length r = 3" using w by blast
    then show "row_of_vec (f (vec_of_row (row_of_vec (g (vec_of_row r))))) = r"
      by (simp add: vec_row_vec fg row_vec_row)
  qed
  then have "concat (map ?F (rows ?n 3 (concat (map ?G ?rs)))) = data c"
    using r1 concat_rows [OF len] by simp
  then show ?thesis by (simp add: map_vectors_def)
qed

subsection \<open>\<^verbatim>\<open>make_euler_rotation\<close> by the convention string\<close>

lemma getattr_axis:
  "getattr_SO3 lib (''from_'' @ [c] @ ''_radians'') =
     (if c \<in> axis_chars then Inr (axis_rotation lib c)
      else Inl (AttributeError (''from_'' @ [c] @ ''_radians'')))"
  by (simp add: getattr_SO3_def axis_rotation_def axis_chars_def)

lemma comprehension_axes:
  "set cs \<subseteq> axis_chars \<Longrightarrow>
   comprehension (\<lambda>axis. getattr_SO3 lib (''from_'' @ [axis] @ ''_radians'')) cs =
     Inr (map (axis_rotation lib) cs)"
  by (induction cs) (simp_all add: getattr_axis del: append.simps)

lemma comprehension_bad_axis:
  "\<not> set cs \<subseteq> axis_chars \<Longrightarrow>
   \<exists>c \<in> set cs. c \<notin> axis_chars \<and>
   comprehension (\<lambda>axis. getattr_SO3 lib (''from_'' @ [axis] @ ''_radians'')) cs =
     Inl (AttributeError (''from_'' @ [c] @ ''_radians''))"
proof (induction cs)
  case Nil
  then show ?case by simp
next
  case (Cons a cs)
  show ?case
  proof (cases "a \<in> axis_chars")
    case False
    then show ?thesis by (simp add: getattr_axis del: append.simps)
  next
    case True
    then have "\<not> set cs \<subseteq> axis_chars" using Cons.prems by simp
    from Cons.IH [OF this] True show ?thesis
      by (auto simp add: getattr_axis simp del: append.simps)
  qed
qed

lemma make_euler_rotation_axes:
  assumes "set cs \<subseteq> axis_chars" and "3 \<le> length cs"
  shows "make_euler_rotation lib phi theta psi cs intr deg =
     Inr (spec_euler_rotation lib (cs ! 0) (cs ! 1) (cs ! 2) phi theta psi intr deg)"
  using assms
  by (auto simp add: make_euler_rotation_def comprehension_axes index_def
      spec_euler_rotation_def Let_def simp del: append.simps)

lemma make_euler_rotation_short:
  assumes "set cs \<subseteq> axis_chars" and "length cs < 3"
  shows "make_euler_rotation lib phi theta psi cs intr deg = Inl IndexError"
  using assms
  by (simp add: make_euler_rotation_def comprehension_axes index_def Let_def del: append.simps)

lemma make_euler_rotation_bad_axis:
  assumes "\<not> set cs \<subseteq> axis_chars"
  shows "\<exists>c \<in> set cs. c \<notin> axis_chars \<and>
     make_euler_rotation lib phi theta psi cs intr deg =
       Inl (AttributeError (''from_'' @ [c] @ ''_radians''))"
proof -
  from comprehension_bad_axis [OF assms, of lib] obtain c where
    "c \<in> set cs" "c \<notin> axis_chars"
    "comprehension (\<lambda>axis. getattr_SO3 lib (''from_'' @ [axis] @ ''_radians'')) cs =
       Inl (AttributeError (''from_'' @ [c] @ ''_radians''))"
    by blast
  then show ?thesis
    by (auto simp add: make_euler_rotation_def simp del: append.simps)
qed

lemma rotation_quat_z90:
  "rotation SO3_quat (Euler (EulerPose_default\<lparr>view_phi := 90\<rparr>))
     = Inr (sqrt 2 / 2, 0, 0, sqrt 2 / 2)"
proof -
  have "make_euler_rotation SO3_quat 90 0 0 ''zyz'' True True =
     Inr (spec_euler_rotation SO3_quat (CHR ''z'') (CHR ''y'') (CHR ''z'') 90 0 0 True True)"
    using make_euler_rotation_axes [of "''zyz''" SO3_quat 90 0 0 True True]
    by (simp add: axis_chars_def)
  then show ?thesis
    by (simp add: EulerPose_rotation_def EulerPose_default_def spec_euler_rotation_def
        axis_rotation_def deg2rad_def SO3_quat_def quat_mul_def cos_45 sin_45)
qed

lemma rows_1: "rows (Suc 0) k xs = [take k xs]"
  by (simp add: rows_def)

lemma rows_2: "rows 2 k xs = [take k xs, take k (drop k xs)]"
  by (simp add: rows_def numeral_2_eq_2)
subsection \<open>The quaternion implementation: unit quaternions are rotations\<close>

text \<open>
  In \<open>SO3_quat\<close>, applying \<open>q\<close> after its inverse (or the inverse after \<open>q\<close>) scales a
  vector by the square of the squared norm of \<open>q\<close>: the inverse undoes \<open>q\<close> exactly when
  \<open>q\<close> has norm 1. Every Euler rotation has norm 1.
\<close>

lemma quat_apply_scaled:
  "quat_apply (w, x, y, z) (a, b, c) =
     ((w * w + x * x - y * y - z * z) * a + 2 * (x * y - w * z) * b + 2 * (x * z + w * y) * c,
      2 * (x * y + w * z) * a + (w * w - x * x + y * y - z * z) * b + 2 * (y * z - w * x) * c,
      2 * (x * z - w * y) * a + 2 * (y * z + w * x) * b + (w * w - x * x - y * y + z * z) * c)"
  by (simp add: quat_apply_def quat_mul_def quat_inverse_def algebra_simps)

lemma quat_apply_inverse_apply:
  "quat_apply q (quat_apply (quat_inverse q) v) =
     (case v of (a, b, c) \<Rightarrow>
        (quat_norm2 q * quat_norm2 q * a, quat_norm2 q * quat_norm2 q * b,
         quat_norm2 q * quat_norm2 q * c))"
proof -
  obtain w x y z where q: "q = (w, x, y, z)" by (cases q) auto
  obtain a b c where v: "v = (a, b, c)" by (cases v) auto
  show ?thesis
    unfolding q v
    apply (simp add: quat_inverse_def quat_apply_scaled quat_norm2_def)
    apply (intro conjI)
    by algebra+
qed

lemma quat_inverse_apply_apply:
  "quat_apply (quat_inverse q) (quat_apply q v) =
     (case v of (a, b, c) \<Rightarrow>
        (quat_norm2 q * quat_norm2 q * a, quat_norm2 q * quat_norm2 q * b,
         quat_norm2 q * quat_norm2 q * c))"
proof -
  obtain w x y z where q: "q = (w, x, y, z)" by (cases q) auto
  obtain a b c where v: "v = (a, b, c)" by (cases v) auto
  show ?thesis
    unfolding q v
    apply (simp add: quat_inverse_def quat_apply_scaled quat_norm2_def)
    apply (intro conjI)
    by algebra+
qed

lemma quat_norm2_mul: "quat_norm2 (quat_mul p q) = quat_norm2 p * quat_norm2 q"
proof -
  obtain w x y z where p: "p = (w, x, y, z)" by (cases p) auto
  obtain a b c d where q: "q = (a, b, c, d)" by (cases q) auto
  show ?thesis
    unfolding p q by (simp add: quat_norm2_def quat_mul_def) algebra
qed

lemma quat_norm2_inverse: "quat_norm2 (quat_inverse q) = quat_norm2 q"
  by (cases q) (simp add: quat_norm2_def quat_inverse_def)

lemma quat_norm2_axis: "quat_norm2 (axis_rotation SO3_quat c t) = 1"
proof -
  have "cos (t / 2) * cos (t / 2) + sin (t / 2) * sin (t / 2) = 1"
    using sin_cos_squared_add2 [of "t / 2"] by (simp add: power2_eq_square)
  then show ?thesis
    by (simp add: axis_rotation_def SO3_quat_def quat_norm2_def)
qed

lemma quat_norm2_euler:
  "quat_norm2 (spec_euler_rotation SO3_quat c0 c1 c2 phi theta psi intr deg) = 1"
proof -
  have m: "SO3_multiply SO3_quat = quat_mul" by (simp add: SO3_quat_def)
  show ?thesis
    by (simp add: spec_euler_rotation_def Let_def m quat_norm2_mul quat_norm2_axis)
qed

lemma make_euler_rotation_cases:
  "(\<not> set cs \<subseteq> axis_chars \<and>
      (\<exists>c. make_euler_rotation lib phi theta psi cs intr deg =
             Inl (AttributeError (''from_'' @ [c] @ ''_radians''))))
   \<or> (set cs \<subseteq> axis_chars \<and> length cs < 3 \<and>
      make_euler_rotation lib phi theta psi cs intr deg = Inl IndexError)
   \<or> (set cs \<subseteq> axis_chars \<and> 3 \<le> length cs \<and>
      make_euler_rotation lib phi theta psi cs intr deg =
        Inr (spec_euler_rotation lib (cs ! 0) (cs ! 1) (cs ! 2) phi theta psi intr deg))"
proof (cases "set cs \<subseteq> axis_chars")
  case False
  from make_euler_rotation_bad_axis [OF this, of lib phi theta psi intr deg] False
  show ?thesis by blast
next
  case True
  show ?thesis
  proof (cases "length cs < 3")
    case True
    with \<open>set cs \<subseteq> axis_chars\<close> make_euler_rotation_short [of cs lib phi theta psi intr deg]
    show ?thesis by simp
  next
    case False
    then have "3 \<le> length cs" by simp
    with \<open>set cs \<subseteq> axis_chars\<close> make_euler_rotation_axes [of cs lib phi theta psi intr deg]
    show ?thesis by simp
  qed
qed

lemma quat_norm2_euler_pose:
  assumes "rotation SO3_quat (Euler p) = Inr R"
  shows "quat_norm2 R = 1"
proof -
  let ?m = "make_euler_rotation SO3_quat (view_phi p) (view_theta p) (view_psi p)
              (convention p) (intrinsic p) (degrees p)"
  from assms obtain Q where Q: "?m = Inr Q"
    and R: "R = (if inverse_e p then SO3_inverse SO3_quat Q else Q)"
    by (auto simp add: EulerPose_rotation_def split: sum.splits)
  from make_euler_rotation_cases [of "convention p" SO3_quat "view_phi p" "view_theta p"
      "view_psi p" "intrinsic p" "degrees p"] Q
  obtain c0 c1 c2 where
    "Q = spec_euler_rotation SO3_quat c0 c1 c2 (view_phi p) (view_theta p) (view_psi p)
           (intrinsic p) (degrees p)"
    by auto
  then have "quat_norm2 Q = 1" by (simp add: quat_norm2_euler)
  moreover have "SO3_inverse SO3_quat = quat_inverse" by (simp add: SO3_quat_def)
  ultimately show ?thesis using R by (simp add: quat_norm2_inverse)
qed

lemma quat_unit_inverse_laws:
  assumes "quat_norm2 R = 1"
  shows "\<forall>v. SO3_apply SO3_quat R (SO3_apply SO3_quat (SO3_inverse SO3_quat R) v) = v"
    and "\<forall>v. SO3_apply SO3_quat (SO3_inverse SO3_quat R) (SO3_apply SO3_quat R v) = v"
  using assms
  by (auto simp add: SO3_quat_def quat_apply_inverse_apply quat_inverse_apply_apply)

subsection \<open>Rotating there and back\<close>

lemma rotate_round_trip:
  assumes r: "rotation lib p = Inr R" and v: "valid_coords c"
    and i: "\<forall>v. SO3_apply lib R (SO3_apply lib (SO3_inverse lib R) v) = v"
  shows "(case rotate lib p c True of Inl e \<Rightarrow> Inl e | Inr c' \<Rightarrow> rotate lib p c' False) = Inr c"
proof -
  let ?c' = "map_vectors (SO3_apply lib (SO3_inverse lib R)) c"
  have 1: "rotate lib p c True = Inr ?c'"
    using r v by (simp add: rotate_def rotate_coordinates_valid)
  have "valid_coords ?c'" using v by (rule valid_map_vectors)
  then have 2: "rotate lib p ?c' False = Inr (map_vectors (SO3_apply lib R) ?c')"
    using r by (simp add: rotate_def rotate_coordinates_valid)
  have "map_vectors (SO3_apply lib R) ?c' = c"
    using v i by (rule map_vectors_inverse)
  then show ?thesis by (simp add: 1 2)
qed

lemma rotate_round_trip':
  assumes r: "rotation lib p = Inr R" and v: "valid_coords c"
    and i: "\<forall>v. SO3_apply lib (SO3_inverse lib R) (SO3_apply lib R v) = v"
  shows "(case rotate lib p c False of Inl e \<Rightarrow> Inl e | Inr c' \<Rightarrow> rotate lib p c' True) = Inr c"
proof -
  let ?c' = "map_vectors (SO3_apply lib R) c"
  have 1: "rotate lib p c False = Inr ?c'"
    using r v by (simp add: rotate_def rotate_coordinates_valid)
  have "valid_coords ?c'" using v by (rule valid_map_vectors)
  then have 2: "rotate lib p ?c' True
      = Inr (map_vectors (SO3_apply lib (SO3_inverse lib R)) ?c')"
    using r by (simp add: rotate_def rotate_coordinates_valid)
  have "map_vectors (SO3_apply lib (SO3_inverse lib R)) ?c' = c"
    using v i by (rule map_vectors_inverse)
  then show ?thesis by (simp add: 1 2)
qed

lemma euler_round_trip_quat:
  assumes "rotation SO3_quat (Euler p) = Inr R" and "valid_coords c"
  shows "(case rotate SO3_quat (Euler p) c True of
            Inl e \<Rightarrow> Inl e
          | Inr c' \<Rightarrow> rotate SO3_quat (Euler p) c' False) = Inr c"
  using assms(1) assms(2) quat_unit_inverse_laws(1) [OF quat_norm2_euler_pose [OF assms(1)]]
  by (rule rotate_round_trip)

lemma quaternion_round_trip_quat:
  assumes "view_qw p * view_qw p + view_qx p * view_qx p + view_qy p * view_qy p
             + view_qz p * view_qz p = 1"
    and "valid_coords c"
  shows "(case rotate SO3_quat (Quaternion p) c True of
            Inl e \<Rightarrow> Inl e
          | Inr c' \<Rightarrow> rotate SO3_quat (Quaternion p) c' False) = Inr c"
proof -
  let ?R = "QuaternionPose_rotation SO3_quat p"
  have r: "rotation SO3_quat (Quaternion p) = Inr ?R" by simp
  have "quat_norm2 ?R = 1"
    using assms(1)
    by (simp add: QuaternionPose_rotation_def Let_def SO3_quat_def quat_norm2_def
        quat_inverse_def)
  from r assms(2) quat_unit_inverse_laws(1) [OF this] show ?thesis
    by (rule rotate_round_trip)
qed

text \<open>
  A quaternion that is not of norm 1 is taken as it is: with \<open>qw = 2\<close> the vectors are
  scaled by 4 in each direction.
\<close>

lemma quaternion_pose_not_normalised:
  "rotate SO3_quat (Quaternion (QuaternionPose_default\<lparr>view_qw := 2\<rparr>))
     \<lparr>shape = [1, 3], data = [1, 0, 0]\<rparr> True = Inr \<lparr>shape = [1, 3], data = [4, 0, 0]\<rparr>"
  by (simp add: rotate_def QuaternionPose_rotation_def QuaternionPose_default_def
      rotate_coordinates_cloud map_vectors_def rows_1 row_of_vec_def vec_of_row_def
      SO3_quat_def quat_apply_def quat_mul_def quat_inverse_def)

subsection \<open>\<^verbatim>\<open>compute_shifts\<close> on pairs\<close>

lemma matmul_vec_pairs:
  assumes "shape freqs = s @ [2]"
  shows "matmul_vec freqs [x, y] =
     Inr \<lparr>shape = s,
          data = map (\<lambda>row. sum_list (map2 (*) row [x, y])) (rows (prod_list s) 2 (data freqs))\<rparr>"
  using assms by (simp add: matmul_vec_def numeral_2_eq_2)

lemma dot_pair: "length row = 2 \<Longrightarrow> sum_list (map2 (*) row [x, y]) = row ! 0 * x + row ! 1 * y"
proof -
  assume "length row = 2"
  then obtain a b where "row = [a, b]" using shape_rank2 by blast
  then show ?thesis by simp
qed

lemma replicate_2: "replicate 2 x = [x, x]"
  by (simp add: numeral_2_eq_2)

lemma exp_minus_i_pi: "exp (- (\<i> * complex_of_real pi)) = - 1"
proof -
  have "exp (- (\<i> * complex_of_real pi)) = cis (- pi)"
    by (simp add: cis_conv_exp mult.commute)
  then show ?thesis by (simp add: complex_eq_iff)
qed

lemma shifts_offset: "shifts p freqs = compute_shifts freqs [offset p ! 0, offset p ! 1]"
  by (cases p) (simp_all add: shifts_def)
subsection \<open>The convention string at the first use of the rotation\<close>

text \<open>
  A convention with a character outside \<open>x, y, z\<close> is refused with an \<^verbatim>\<open>AttributeError\<close>
  naming the missing constructor, and a convention of fewer than three characters of
  \<open>x, y, z\<close> with an \<^verbatim>\<open>IndexError\<close>. A convention of three or more characters of \<open>x, y, z\<close>
  raises nothing: the characters after the third are read by the comprehension and never
  used.
\<close>

lemma euler_convention_errors:
  "(\<not> set (convention p) \<subseteq> axis_chars \<longrightarrow>
      (\<exists>c \<in> set (convention p). c \<notin> axis_chars \<and>
         rotation lib (Euler p) = Inl (AttributeError (''from_'' @ [c] @ ''_radians''))))
   \<and> (set (convention p) \<subseteq> axis_chars \<and> length (convention p) < 3 \<longrightarrow>
      rotation lib (Euler p) = Inl IndexError)
   \<and> (set (convention p) \<subseteq> axis_chars \<and> 3 \<le> length (convention p) \<longrightarrow>
      (\<exists>R. rotation lib (Euler p) = Inr R)
      \<and> rotation lib (Euler p) = rotation lib (Euler (p\<lparr>convention := take 3 (convention p)\<rparr>)))"
proof (intro conjI impI)
  assume b: "\<not> set (convention p) \<subseteq> axis_chars"
  from make_euler_rotation_bad_axis [OF b, of lib "view_phi p" "view_theta p" "view_psi p"
      "intrinsic p" "degrees p"]
  show "\<exists>c \<in> set (convention p). c \<notin> axis_chars \<and>
         rotation lib (Euler p) = Inl (AttributeError (''from_'' @ [c] @ ''_radians''))"
    by (auto simp add: EulerPose_rotation_def simp del: append.simps)
next
  assume "set (convention p) \<subseteq> axis_chars \<and> length (convention p) < 3"
  then show "rotation lib (Euler p) = Inl IndexError"
    by (simp add: EulerPose_rotation_def make_euler_rotation_short)
next
  assume a: "set (convention p) \<subseteq> axis_chars \<and> 3 \<le> length (convention p)"
  then show "\<exists>R. rotation lib (Euler p) = Inr R"
    by (simp add: EulerPose_rotation_def make_euler_rotation_axes)
next
  assume a: "set (convention p) \<subseteq> axis_chars \<and> 3 \<le> length (convention p)"
  have "set (take 3 (convention p)) \<subseteq> axis_chars"
    using a set_take_subset [of 3 "convention p"] by blast
  moreover have "3 \<le> length (take 3 (convention p))" using a by simp
  ultimately show
    "rotation lib (Euler p) = rotation lib (Euler (p\<lparr>convention := take 3 (convention p)\<rparr>))"
    using a by (simp add: EulerPose_rotation_def make_euler_rotation_axes)
qed

lemma rotation_quat_unit:
  "rotation SO3_quat
     (Quaternion (QuaternionPose_default\<lparr>view_qw := 3 / 5, view_qz := 4 / 5\<rparr>))
     = Inr (3 / 5, 0, 0, 4 / 5)"
  by (simp add: QuaternionPose_rotation_def QuaternionPose_default_def SO3_quat_def)
subsection \<open>The defaults of \<^verbatim>\<open>EulerPose\<close> and of \<^verbatim>\<open>make_euler_rotation\<close>\<close>

lemma euler_default_rotation:
  "rotation lib (Euler (EulerPose_default\<lparr>view_phi := a, view_theta := b, view_psi := c\<rparr>)) =
     make_euler_rotation_default lib (deg2rad a) (deg2rad b) (deg2rad c)"
proof -
  have v: "set ''zyz'' \<subseteq> axis_chars" "3 \<le> length ''zyz''" by (simp_all add: axis_chars_def)
  show ?thesis
    by (simp add: EulerPose_rotation_def EulerPose_default_def make_euler_rotation_default_def
        make_euler_rotation_axes [OF v] spec_euler_rotation_def)
qed

lemma cos_pi_degrees_pos: "0 < cos (pi * (pi / 180) / 2)"
proof -
  have "pi * (pi / 180) < pi * 1"
    using pi_less_4 pi_gt_zero by (intro mult_strict_left_mono) simp_all
  then have "pi * (pi / 180) / 2 < pi / 2" by simp
  moreover have "0 < pi * (pi / 180) / 2" by simp
  ultimately show ?thesis by (simp add: cos_gt_zero)
qed

section \<open>The properties of the specification\<close>

text \<open>
  Claim C1. When the convention names three axes of \<open>x, y, z\<close>, the Euler parameterization
  returns the composition of the specification: the angles are converted to radians when
  \<open>degrees\<close> is set, \<open>R1, R2, R3\<close> are the elementary rotations about the axes the three
  characters name, by \<open>phi\<close>, \<open>theta\<close> and \<open>psi\<close>, the result is \<open>(R1 @ R2) @ R3\<close> when
  \<open>intrinsic\<close> is set and \<open>(R3 @ R2) @ R1\<close> otherwise, and \<^verbatim>\<open>EulerPose.rotation\<close> inverts
  it when \<open>inverse\<close> is set.
\<close>

theorem euler_rotation_composition:
  assumes "convention p = [c0, c1, c2]" and "{c0, c1, c2} \<subseteq> axis_chars"
  shows "rotation lib (Euler p) =
           Inr (let R = spec_euler_rotation lib c0 c1 c2 (view_phi p) (view_theta p)
                          (view_psi p) (intrinsic p) (degrees p)
                in if inverse_e p then SO3_inverse lib R else R)
       \<and> make_euler_rotation lib phi theta psi [c0, c1, c2] intr deg =
           Inr (spec_euler_rotation lib c0 c1 c2 phi theta psi intr deg)"
  using assms make_euler_rotation_axes [of "[c0, c1, c2]" lib]
  by (simp add: EulerPose_rotation_def Let_def)

theorem euler_rotation_composition_witness:
  "convention (EulerPose_default\<lparr>view_phi := 90\<rparr>) = [CHR ''z'', CHR ''y'', CHR ''z'']
   \<and> {CHR ''z'', CHR ''y'', CHR ''z''} \<subseteq> axis_chars
   \<and> rotation SO3_quat (Euler (EulerPose_default\<lparr>view_phi := 90\<rparr>))
       = Inr (sqrt 2 / 2, 0, 0, sqrt 2 / 2)
   \<and> make_euler_rotation SO3_quat pi 0 0 ''zyz'' False False = Inr (0, 0, 0, 1)"
proof -
  have c: "convention (EulerPose_default\<lparr>view_phi := 90\<rparr>) = [CHR ''z'', CHR ''y'', CHR ''z'']"
    by (simp add: EulerPose_default_def)
  have a: "{CHR ''z'', CHR ''y'', CHR ''z''} \<subseteq> axis_chars"
    by (simp add: axis_chars_def)
  show ?thesis
    using euler_rotation_composition [OF c a, of SO3_quat pi 0 0 False False] c a
    by (simp add: EulerPose_default_def spec_euler_rotation_def axis_rotation_def
        deg2rad_def SO3_quat_def quat_mul_def cos_45 sin_45)
qed

text \<open>
  Claim C2. For a pose whose rotation is \<open>R\<close> and a valid Coordinate Set \<open>c\<close>,
  \<^verbatim>\<open>p.rotate(c, real)\<close> applies the inverse of \<open>R\<close> to every 3-vector of \<open>c\<close> when \<open>real\<close>
  is true, which is the default, and \<open>R\<close> itself when \<open>real\<close> is false.
\<close>

theorem pose_rotate_real_flag:
  assumes "rotation lib p = Inr R" and "valid_coords c"
  shows "rotate lib p c True = Inr (map_vectors (SO3_apply lib (SO3_inverse lib R)) c)
       \<and> rotate lib p c False = Inr (map_vectors (SO3_apply lib R) c)
       \<and> rotate_default lib p c = rotate lib p c True"
  using assms by (simp add: rotate_def rotate_default_def rotate_coordinates_valid)

theorem pose_rotate_real_flag_witness:
  "rotation SO3_quat (Euler (EulerPose_default\<lparr>view_phi := 90\<rparr>))
     = Inr (sqrt 2 / 2, 0, 0, sqrt 2 / 2)
   \<and> valid_coords \<lparr>shape = [1, 3], data = [1, 0, 0]\<rparr>
   \<and> rotate SO3_quat (Euler (EulerPose_default\<lparr>view_phi := 90\<rparr>))
        \<lparr>shape = [1, 3], data = [1, 0, 0]\<rparr> True
     = Inr \<lparr>shape = [1, 3], data = [0, - 1, 0]\<rparr>
   \<and> rotate SO3_quat (Euler (EulerPose_default\<lparr>view_phi := 90\<rparr>))
        \<lparr>shape = [1, 3], data = [1, 0, 0]\<rparr> False
     = Inr \<lparr>shape = [1, 3], data = [0, 1, 0]\<rparr>"
proof -
  let ?c = "\<lparr>shape = [1, 3], data = [1, 0, 0 :: real]\<rparr>"
  have v: "valid_coords ?c" by (simp add: valid_coords_def wf_array_def)
  show ?thesis
    using pose_rotate_real_flag [OF rotation_quat_z90 v] rotation_quat_z90 v
    by (simp add: map_vectors_def rows_1 row_of_vec_def vec_of_row_def SO3_quat_def
        quat_apply_def quat_mul_def quat_inverse_def)
qed
text \<open>
  Claim C3, as amended. An array whose rank is neither 2 nor 4 is refused with a
  \<^verbatim>\<open>ValueError\<close> whose message is the fixed text naming the two accepted forms. An array
  of rank 2 whose last axis is not 3, such as one of shape \<open>(N, 4)\<close>, is refused by
  \<^verbatim>\<open>SO3.apply\<close>, and an array of rank 4 whose last axis is not 3 and whose first three
  axes are not empty is refused by \<^verbatim>\<open>reshape\<close>. In each case no array is returned.
\<close>

theorem rotate_coordinates_shape_errors:
  "(length (shape c) \<noteq> 2 \<and> length (shape c) \<noteq> 4 \<longrightarrow>
      rotate_coordinates lib c R =
        Inl (ValueError ''coords must either be shape (N, 3) or (N1, N2, N3, 3)''))
   \<and> (length (shape c) = 2 \<and> last (shape c) \<noteq> 3 \<longrightarrow>
      rotate_coordinates lib c R = Inl ApplyError)
   \<and> (length (shape c) = 4 \<and> last (shape c) \<noteq> 3 \<and> prod_list (butlast (shape c)) \<noteq> 0 \<longrightarrow>
      rotate_coordinates lib c R = Inl ReshapeError)"
proof (intro conjI impI)
  assume "length (shape c) \<noteq> 2 \<and> length (shape c) \<noteq> 4"
  then show "rotate_coordinates lib c R =
      Inl (ValueError ''coords must either be shape (N, 3) or (N1, N2, N3, 3)'')"
    by (simp add: rotate_coordinates_def)
next
  assume a: "length (shape c) = 2 \<and> last (shape c) \<noteq> 3"
  then obtain n d where s: "shape c = [n, d]" using shape_rank2 [of "shape c"] by auto
  with a have "d \<noteq> 3" by simp
  then show "rotate_coordinates lib c R = Inl ApplyError"
    using s by (simp add: rotate_coordinates_def vmap_apply_def)
next
  assume a: "length (shape c) = 4 \<and> last (shape c) \<noteq> 3 \<and> prod_list (butlast (shape c)) \<noteq> 0"
  then obtain n1 n2 n3 d where s: "shape c = [n1, n2, n3, d]"
    using shape_rank4 [of "shape c"] by auto
  with a have d: "d \<noteq> 3" and n: "n1 * n2 * n3 \<noteq> 0" by simp_all
  have "n1 * n2 * n3 * 3 \<noteq> n1 * n2 * n3 * d" using d n by simp
  then have "prod_list [n1 * n2 * n3, 3] \<noteq> prod_list [n1, n2, n3, d]"
    by (simp add: mult.assoc)
  then have "reshape c [n1 * n2 * n3, 3] = Inl ReshapeError"
    using s by (simp only: reshape_def if_False)
  then show "rotate_coordinates lib c R = Inl ReshapeError"
    using s by (simp add: rotate_coordinates_def Let_def)
qed

theorem rotate_coordinates_shape_errors_witness:
  "length (shape \<lparr>shape = [5, 7, 9], data = replicate 315 (0::real)\<rparr>) \<noteq> 2
   \<and> length (shape \<lparr>shape = [5, 7, 9], data = replicate 315 (0::real)\<rparr>) \<noteq> 4
   \<and> rotate_coordinates SO3_quat \<lparr>shape = [5, 7, 9], data = replicate 315 0\<rparr> (1, 0, 0, 0)
       = Inl (ValueError ''coords must either be shape (N, 3) or (N1, N2, N3, 3)'')
   \<and> length (shape \<lparr>shape = [2, 4], data = [1, 0, 0, 0, 0, 1, 0, 0 :: real]\<rparr>) = 2
   \<and> last (shape \<lparr>shape = [2, 4], data = [1, 0, 0, 0, 0, 1, 0, 0 :: real]\<rparr>) \<noteq> 3
   \<and> rotate_coordinates SO3_quat \<lparr>shape = [2, 4], data = [1, 0, 0, 0, 0, 1, 0, 0]\<rparr>
         (1, 0, 0, 0) = Inl ApplyError
   \<and> length (shape \<lparr>shape = [1, 1, 2, 2], data = [1, 0, 0, 1 :: real]\<rparr>) = 4
   \<and> last (shape \<lparr>shape = [1, 1, 2, 2], data = [1, 0, 0, 1 :: real]\<rparr>) \<noteq> 3
   \<and> prod_list (butlast (shape \<lparr>shape = [1, 1, 2, 2], data = [1, 0, 0, 1 :: real]\<rparr>)) \<noteq> 0
   \<and> rotate_coordinates SO3_quat \<lparr>shape = [1, 1, 2, 2], data = [1, 0, 0, 1]\<rparr>
         (1, 0, 0, 0) = Inl ReshapeError"
  using rotate_coordinates_shape_errors
          [of "\<lparr>shape = [5, 7, 9], data = replicate 315 (0::real)\<rparr>" SO3_quat "(1, 0, 0, 0)"]
        rotate_coordinates_shape_errors
          [of "\<lparr>shape = [2, 4], data = [1, 0, 0, 0, 0, 1, 0, 0 :: real]\<rparr>" SO3_quat
              "(1, 0, 0, 0)"]
        rotate_coordinates_shape_errors
          [of "\<lparr>shape = [1, 1, 2, 2], data = [1, 0, 0, 1 :: real]\<rparr>" SO3_quat "(1, 0, 0, 0)"]
  by simp
text \<open>
  Claim C3 as stated fails: an array of shape \<open>(1, 4)\<close> passes the rank check and is
  refused by \<^verbatim>\<open>SO3.apply\<close>, not by the \<^verbatim>\<open>ValueError\<close>; and the message for an array of shape
  \<open>(5, 7, 9)\<close> holds none of the digits 5, 7, 9, so it does not name the received shape.
\<close>

theorem rotate_coordinates_invalid_shape_counterexample:
  "rotate_coordinates SO3_quat \<lparr>shape = [1, 4], data = [1, 0, 0, 0]\<rparr> (1, 0, 0, 0)
     = Inl ApplyError
   \<and> rotate_coordinates SO3_quat \<lparr>shape = [5, 7, 9], data = replicate 315 0\<rparr> (1, 0, 0, 0)
     = Inl (ValueError ''coords must either be shape (N, 3) or (N1, N2, N3, 3)'')
   \<and> CHR ''9'' \<notin> set ''coords must either be shape (N, 3) or (N1, N2, N3, 3)''
   \<and> CHR ''5'' \<notin> set ''coords must either be shape (N, 3) or (N1, N2, N3, 3)''
   \<and> CHR ''7'' \<notin> set ''coords must either be shape (N, 3) or (N1, N2, N3, 3)''"
  by (simp add: rotate_coordinates_def vmap_apply_def)

text \<open>
  Claim C5. \<^verbatim>\<open>QuaternionPose.rotation\<close> builds the rotation from the quaternion
  \<open>(qw, qx, qy, qz)\<close>, in this order, and returns its inverse when \<open>inverse\<close> is set, the
  rotation itself otherwise.
\<close>

theorem quaternion_rotation_wxyz:
  "rotation lib (Quaternion p) =
     Inr (if inverse_q p
          then SO3_inverse lib (SO3_wxyz lib (view_qw p, view_qx p, view_qy p, view_qz p))
          else SO3_wxyz lib (view_qw p, view_qx p, view_qy p, view_qz p))"
  by (simp add: QuaternionPose_rotation_def Let_def)

theorem quaternion_rotation_wxyz_witness:
  "rotation SO3_quat (Quaternion (QuaternionPose_default\<lparr>view_qw := 0, view_qz := 1\<rparr>))
     = Inr (0, 0, 0, 1)
   \<and> rotation SO3_quat
        (Quaternion (QuaternionPose_default\<lparr>inverse_q := True, view_qw := 0, view_qz := 1\<rparr>))
     = Inr (0, 0, 0, - 1)"
  using quaternion_rotation_wxyz
          [of SO3_quat "QuaternionPose_default\<lparr>view_qw := 0, view_qz := 1\<rparr>"]
        quaternion_rotation_wxyz
          [of SO3_quat "QuaternionPose_default\<lparr>inverse_q := True, view_qw := 0, view_qz := 1\<rparr>"]
  by (simp add: QuaternionPose_default_def SO3_quat_def quat_inverse_def)

text \<open>
  Claim C6. For a volume grid \<open>g\<close> of shape \<open>(N1, N2, N3, 3)\<close>, rotating \<open>g\<close> and flattening
  the result to \<open>(N1 * N2 * N3, 3)\<close> gives the same array as flattening \<open>g\<close> and rotating
  the flat list; both succeed. Rotating the flat list and reshaping it back gives the
  rotated grid.
\<close>

theorem grid_rotation_flattening:
  assumes "shape g = [N1, N2, N3, 3]"
  shows "(case rotate_coordinates lib g R of
            Inl e \<Rightarrow> Inl e
          | Inr t \<Rightarrow> reshape t [N1 * N2 * N3, 3])
         = Inr \<lparr>shape = [N1 * N2 * N3, 3], data = data (map_vectors (SO3_apply lib R) g)\<rparr>
       \<and> (case reshape g [N1 * N2 * N3, 3] of
            Inl e \<Rightarrow> Inl e
          | Inr flat \<Rightarrow> rotate_coordinates lib flat R)
         = Inr \<lparr>shape = [N1 * N2 * N3, 3], data = data (map_vectors (SO3_apply lib R) g)\<rparr>
       \<and> (case reshape g [N1 * N2 * N3, 3] of
            Inl e \<Rightarrow> Inl e
          | Inr flat \<Rightarrow>
              (case rotate_coordinates lib flat R of
                 Inl e \<Rightarrow> Inl e
               | Inr t \<Rightarrow> reshape t [N1, N2, N3, 3]))
         = rotate_coordinates lib g R"
proof -
  let ?flat = "[N1 * N2 * N3, 3]"
  let ?out = "map_vectors (SO3_apply lib R) g"
  have g: "rotate_coordinates lib g R = Inr ?out"
    using assms by (rule rotate_coordinates_grid)
  have p: "prod_list ?flat = prod_list [N1, N2, N3, 3]"
    by (simp add: mult.assoc)
  have f: "reshape g ?flat = Inr (g\<lparr>shape := ?flat\<rparr>)"
    using assms p by (simp add: reshape_def)
  have t: "reshape ?out ?flat = Inr \<lparr>shape = ?flat, data = data ?out\<rparr>"
    using assms p by (simp add: reshape_def map_vectors_def)
  have "shape (g\<lparr>shape := ?flat\<rparr>) = ?flat" by simp
  then have "rotate_coordinates lib (g\<lparr>shape := ?flat\<rparr>) R
      = Inr (map_vectors (SO3_apply lib R) (g\<lparr>shape := ?flat\<rparr>))"
    by (rule rotate_coordinates_cloud)
  moreover have "map_vectors (SO3_apply lib R) (g\<lparr>shape := ?flat\<rparr>)
      = \<lparr>shape = ?flat, data = data ?out\<rparr>"
    using assms by (simp add: map_vectors_def mult.assoc)
  ultimately have r: "rotate_coordinates lib (g\<lparr>shape := ?flat\<rparr>) R
      = Inr \<lparr>shape = ?flat, data = data ?out\<rparr>"
    by simp
  have b: "reshape \<lparr>shape = ?flat, data = data ?out\<rparr> [N1, N2, N3, 3] = Inr ?out"
    using assms p by (simp add: reshape_def map_vectors_def)
  show ?thesis
    by (simp only: g f t r b sum.case)
qed

theorem grid_rotation_flattening_witness:
  "shape \<lparr>shape = [1, 1, 2, 3], data = [1, 0, 0, 0, 1, 0 :: real]\<rparr> = [1, 1, 2, 3]
   \<and> (case rotate_coordinates SO3_quat \<lparr>shape = [1, 1, 2, 3], data = [1, 0, 0, 0, 1, 0]\<rparr>
              (0, 0, 0, 1) of
         Inl e \<Rightarrow> Inl e
       | Inr t \<Rightarrow> reshape t [1 * 1 * 2, 3])
      = Inr \<lparr>shape = [2, 3], data = [- 1, 0, 0, 0, - 1, 0]\<rparr>
   \<and> (case reshape \<lparr>shape = [1, 1, 2, 3], data = [1, 0, 0, 0, 1, 0]\<rparr> [1 * 1 * 2, 3] of
         Inl e \<Rightarrow> Inl e
       | Inr flat \<Rightarrow> rotate_coordinates SO3_quat flat (0, 0, 0, 1))
      = Inr \<lparr>shape = [2, 3], data = [- 1, 0, 0, 0, - 1, 0]\<rparr>"
proof -
  have s: "shape \<lparr>shape = [1, 1, 2, 3], data = [1, 0, 0, 0, 1, 0 :: real]\<rparr> = [1, 1, 2, 3]"
    by simp
  show ?thesis
    using grid_rotation_flattening [OF s, of SO3_quat "(0, 0, 0, 1)"]
    by (simp add: map_vectors_def rows_2 row_of_vec_def vec_of_row_def SO3_quat_def
        quat_apply_def quat_mul_def quat_inverse_def)
qed
text \<open>
  Claim C8, as amended. For a pose whose rotation is defined and is a quaternion of norm
  1 (every Euler pose whose rotation is defined; a quaternion pose with
  \<open>qw\<^sup>2 + qx\<^sup>2 + qy\<^sup>2 + qz\<^sup>2 = 1\<close>) and a valid Coordinate Set \<open>c\<close>,
  \<^verbatim>\<open>p.rotate(p.rotate(c, real=True), real=False)\<close> is \<open>c\<close>, and so is
  \<^verbatim>\<open>p.rotate(p.rotate(c, real=False), real=True)\<close>. The rotations are those of the
  quaternion implementation \<open>SO3_quat\<close>.
\<close>

theorem pose_round_trip_unit_norm:
  assumes "rotation SO3_quat p = Inr R" and "valid_coords c"
    and "(\<exists>e. p = Euler e) \<or> quat_norm2 R = 1"
  shows "(case rotate SO3_quat p c True of
            Inl e \<Rightarrow> Inl e
          | Inr c' \<Rightarrow> rotate SO3_quat p c' False) = Inr c
       \<and> (case rotate SO3_quat p c False of
            Inl e \<Rightarrow> Inl e
          | Inr c' \<Rightarrow> rotate SO3_quat p c' True) = Inr c"
proof -
  have n: "quat_norm2 R = 1"
    using assms(1,3) quat_norm2_euler_pose by blast
  show ?thesis
    using rotate_round_trip [OF assms(1,2) quat_unit_inverse_laws(1) [OF n]]
      rotate_round_trip' [OF assms(1,2) quat_unit_inverse_laws(2) [OF n]]
    by simp
qed

theorem pose_round_trip_unit_norm_witness:
  "rotation SO3_quat (Euler (EulerPose_default\<lparr>view_phi := 90\<rparr>))
     = Inr (sqrt 2 / 2, 0, 0, sqrt 2 / 2)
   \<and> valid_coords \<lparr>shape = [2, 3], data = [1, 0, 0, 0, 2, 5]\<rparr>
   \<and> (case rotate SO3_quat (Euler (EulerPose_default\<lparr>view_phi := 90\<rparr>))
              \<lparr>shape = [2, 3], data = [1, 0, 0, 0, 2, 5]\<rparr> True of
         Inl e \<Rightarrow> Inl e
       | Inr c' \<Rightarrow> rotate SO3_quat (Euler (EulerPose_default\<lparr>view_phi := 90\<rparr>)) c' False)
      = Inr \<lparr>shape = [2, 3], data = [1, 0, 0, 0, 2, 5]\<rparr>
   \<and> rotation SO3_quat
        (Quaternion (QuaternionPose_default\<lparr>view_qw := 3 / 5, view_qz := 4 / 5\<rparr>))
      = Inr (3 / 5, 0, 0, 4 / 5)
   \<and> quat_norm2 (3 / 5, 0, 0, 4 / 5) = 1
   \<and> (case rotate SO3_quat
              (Quaternion (QuaternionPose_default\<lparr>view_qw := 3 / 5, view_qz := 4 / 5\<rparr>))
              \<lparr>shape = [2, 3], data = [1, 0, 0, 0, 2, 5]\<rparr> True of
         Inl e \<Rightarrow> Inl e
       | Inr c' \<Rightarrow>
           rotate SO3_quat
             (Quaternion (QuaternionPose_default\<lparr>view_qw := 3 / 5, view_qz := 4 / 5\<rparr>))
             c' False)
      = Inr \<lparr>shape = [2, 3], data = [1, 0, 0, 0, 2, 5]\<rparr>"
proof -
  let ?c = "\<lparr>shape = [2, 3], data = [1, 0, 0, 0, 2, 5 :: real]\<rparr>"
  have v: "valid_coords ?c" by (simp add: valid_coords_def wf_array_def)
  have e: "(\<exists>e. Euler (EulerPose_default\<lparr>view_phi := 90\<rparr>) = Euler e)
      \<or> quat_norm2 (sqrt 2 / 2, 0, 0, sqrt 2 / 2) = 1"
    by blast
  have n: "quat_norm2 (3 / 5, 0, 0, 4 / 5) = 1" by (simp add: quat_norm2_def)
  then have q: "(\<exists>e. Quaternion (QuaternionPose_default\<lparr>view_qw := 3 / 5, view_qz := 4 / 5\<rparr>)
        = Euler e) \<or> quat_norm2 (3 / 5, 0, 0, 4 / 5) = 1"
    by blast
  from pose_round_trip_unit_norm [OF rotation_quat_z90 v e]
    pose_round_trip_unit_norm [OF rotation_quat_unit v q]
    rotation_quat_z90 rotation_quat_unit v n
  show ?thesis by blast
qed

text \<open>
  Claim C8 as stated fails: the quaternion of a \<^verbatim>\<open>QuaternionPose\<close> is not normalised, and
  with \<open>qw = 2\<close> the vector \<open>(1, 0, 0)\<close> comes back as \<open>(16, 0, 0)\<close>.
\<close>

theorem pose_round_trip_non_unit_counterexample:
  "valid_coords \<lparr>shape = [1, 3], data = [1, 0, 0]\<rparr>
   \<and> (case rotate SO3_quat (Quaternion (QuaternionPose_default\<lparr>view_qw := 2\<rparr>))
              \<lparr>shape = [1, 3], data = [1, 0, 0]\<rparr> True of
         Inl e \<Rightarrow> Inl e
       | Inr c' \<Rightarrow>
           rotate SO3_quat (Quaternion (QuaternionPose_default\<lparr>view_qw := 2\<rparr>)) c' False)
      = Inr \<lparr>shape = [1, 3], data = [16, 0, 0]\<rparr>
   \<and> \<lparr>shape = [1, 3], data = [16, 0, 0]\<rparr> \<noteq> \<lparr>shape = [1, 3], data = [1, 0, 0 :: real]\<rparr>"
  by (simp add: valid_coords_def wf_array_def rotate_def QuaternionPose_rotation_def
      QuaternionPose_default_def rotate_coordinates_cloud map_vectors_def rows_1
      row_of_vec_def vec_of_row_def SO3_quat_def quat_apply_def quat_mul_def
      quat_inverse_def)
text \<open>
  Claim C4. For a well-formed frequency grid whose entries are pairs \<open>(k_x, k_y)\<close> (its
  last axis has length 2) and an offset \<open>(x, y)\<close>, \<^verbatim>\<open>compute_shifts\<close> returns, entry by
  entry, \<open>exp (- \<i> * 2 * pi * (k_x * x + k_y * y))\<close>, in the shape of the grid of entries;
  with the offset \<open>(0, 0)\<close> every entry is 1; \<^verbatim>\<open>Pose.shifts\<close> is \<^verbatim>\<open>compute_shifts\<close> with
  the first two components of the offset of the pose.
\<close>

theorem compute_shifts_phase:
  assumes "wf_array freqs" and "shape freqs = s @ [2]"
  shows "compute_shifts freqs [x, y] =
           Inr \<lparr>shape = s,
                data = map (\<lambda>k. exp (- \<i> * complex_of_real (2 * pi * (k ! 0 * x + k ! 1 * y))))
                           (rows (prod_list s) 2 (data freqs))\<rparr>
       \<and> compute_shifts freqs [0, 0] = Inr \<lparr>shape = s, data = replicate (prod_list s) 1\<rparr>
       \<and> shifts p freqs = compute_shifts freqs [offset p ! 0, offset p ! 1]"
proof -
  have "length (data freqs) = prod_list s * 2"
    using assms by (simp add: wf_array_def)
  then have w: "\<forall>r \<in> set (rows (prod_list s) 2 (data freqs)). length r = 2"
    by (rule rows_width)
  have e: "map (\<lambda>row. exp (- \<i> * complex_of_real (2 * pi * sum_list (map2 (*) row [x, y]))))
             (rows (prod_list s) 2 (data freqs))
         = map (\<lambda>k. exp (- \<i> * complex_of_real (2 * pi * (k ! 0 * x + k ! 1 * y))))
             (rows (prod_list s) 2 (data freqs))" for x y
  proof (rule map_cong [OF refl])
    fix r assume "r \<in> set (rows (prod_list s) 2 (data freqs))"
    then have "length r = 2" using w by blast
    then have "sum_list (map2 (*) r [x, y]) = r ! 0 * x + r ! 1 * y" by (rule dot_pair)
    then show "exp (- \<i> * complex_of_real (2 * pi * sum_list (map2 (*) r [x, y])))
        = exp (- \<i> * complex_of_real (2 * pi * (r ! 0 * x + r ! 1 * y)))"
      by (simp only:)
  qed
  have 1: "\<And>x y. compute_shifts freqs [x, y] =
           Inr \<lparr>shape = s,
                data = map (\<lambda>k. exp (- \<i> * complex_of_real (2 * pi * (k ! 0 * x + k ! 1 * y))))
                           (rows (prod_list s) 2 (data freqs))\<rparr>"
    by (simp only: compute_shifts_def matmul_vec_pairs [OF assms(2)] sum.case
          ndarray.simps list.map_comp comp_def e)
  have 2: "compute_shifts freqs [0, 0] = Inr \<lparr>shape = s, data = replicate (prod_list s) 1\<rparr>"
    by (simp add: 1 map_replicate_const length_rows)
  show ?thesis using 1 2 shifts_offset by simp
qed

theorem compute_shifts_phase_witness:
  "wf_array \<lparr>shape = [2, 2], data = [1, 0, 0, 3 :: real]\<rparr>
   \<and> shape \<lparr>shape = [2, 2], data = [1, 0, 0, 3 :: real]\<rparr> = [2] @ [2]
   \<and> compute_shifts \<lparr>shape = [2, 2], data = [1, 0, 0, 3]\<rparr> [1 / 2, 0]
       = Inr \<lparr>shape = [2], data = [- 1, 1]\<rparr>
   \<and> compute_shifts \<lparr>shape = [2, 2], data = [1, 0, 0, 3]\<rparr> [0, 0]
       = Inr \<lparr>shape = [2], data = [1, 1]\<rparr>
   \<and> shifts (Euler (EulerPose_default\<lparr>offset_x := 1 / 2, offset_z := 7\<rparr>))
        \<lparr>shape = [2, 2], data = [1, 0, 0, 3]\<rparr>
       = Inr \<lparr>shape = [2], data = [- 1, 1]\<rparr>"
proof -
  let ?f = "\<lparr>shape = [2, 2], data = [1, 0, 0, 3 :: real]\<rparr>"
  have w: "wf_array ?f" by (simp add: wf_array_def)
  have s: "shape ?f = [2] @ [2]" by simp
  have r: "rows 2 2 [1, 0, 0, 3 :: real] = [[1, 0], [0, 3]]" by (simp add: rows_2)
  show ?thesis
    using compute_shifts_phase [OF w s, of "1 / 2" 0
            "Euler (EulerPose_default\<lparr>offset_x := 1 / 2, offset_z := 7\<rparr>)"] w
    by (simp add: r exp_minus_i_pi replicate_2 EulerPose_default_def)
qed
text \<open>
  Claim C7 fails on the code for a convention that is too long. The documentation of
  \<^verbatim>\<open>EulerPose\<close> gives the convention as a string of 3 characters of \<open>x\<close>, \<open>y\<close> and \<open>z\<close>; the
  convention \<^verbatim>\<open>"zyzx"\<close>, of four characters, raises nothing and gives the rotation of
  \<^verbatim>\<open>"zyz"\<close>.
\<close>

theorem euler_long_convention_accepted:
  "rotation SO3_quat (Euler (EulerPose_default\<lparr>convention := ''zyzx'', view_phi := 90\<rparr>))
     = Inr (sqrt 2 / 2, 0, 0, sqrt 2 / 2)
   \<and> length ''zyzx'' \<noteq> 3"
proof -
  have "make_euler_rotation SO3_quat 90 0 0 ''zyzx'' True True =
     Inr (spec_euler_rotation SO3_quat (CHR ''z'') (CHR ''y'') (CHR ''z'') 90 0 0 True True)"
    using make_euler_rotation_axes [of "''zyzx''" SO3_quat 90 0 0 True True]
    by (simp add: axis_chars_def)
  then show ?thesis
    by (simp add: EulerPose_rotation_def EulerPose_default_def spec_euler_rotation_def
        axis_rotation_def deg2rad_def SO3_quat_def quat_mul_def cos_45 sin_45)
qed

text \<open>
  Claim C9, as amended. The translation phase encoder accepts only frequency grids whose
  entries have exactly two components: for a grid whose last axis has another length,
  \<^verbatim>\<open>compute_shifts\<close> with an offset \<open>(x, y)\<close>, and \<^verbatim>\<open>Pose.shifts\<close>, fail in \<^verbatim>\<open>jnp.matmul\<close>
  and return no result.
\<close>

theorem compute_shifts_needs_pairs:
  assumes "shape freqs = [] \<or> last (shape freqs) \<noteq> 2"
  shows "compute_shifts freqs [x, y] = Inl MatmulError \<and> shifts p freqs = Inl MatmulError"
  using assms by (auto simp add: shifts_offset compute_shifts_def matmul_vec_def)

theorem compute_shifts_needs_pairs_witness:
  "(shape \<lparr>shape = [1, 3], data = [1, 0, 5 :: real]\<rparr> = []
      \<or> last (shape \<lparr>shape = [1, 3], data = [1, 0, 5 :: real]\<rparr>) \<noteq> 2)
   \<and> compute_shifts \<lparr>shape = [1, 3], data = [1, 0, 5]\<rparr> [1 / 2, 0] = Inl MatmulError
   \<and> shifts (Euler (EulerPose_default\<lparr>offset_x := 1 / 2\<rparr>))
        \<lparr>shape = [1, 3], data = [1, 0, 5]\<rparr> = Inl MatmulError"
proof -
  have h: "shape \<lparr>shape = [1, 3], data = [1, 0, 5 :: real]\<rparr> = []
      \<or> last (shape \<lparr>shape = [1, 3], data = [1, 0, 5 :: real]\<rparr>) \<noteq> 2"
    by simp
  show ?thesis
    using compute_shifts_needs_pairs [OF h, of "1 / 2" 0
            "Euler (EulerPose_default\<lparr>offset_x := 1 / 2\<rparr>)"] h
    by simp
qed

text \<open>
  Claim C9 as stated fails: a grid with the single entry \<open>(1, 0, 5)\<close> is refused, while
  the grid truncated to \<open>(1, 0)\<close> gives \<open>- 1\<close> for the offset \<open>(1/2, 0)\<close>.
\<close>

theorem compute_shifts_third_component_counterexample:
  "compute_shifts \<lparr>shape = [1, 3], data = [1, 0, 5]\<rparr> [1 / 2, 0] = Inl MatmulError
   \<and> compute_shifts \<lparr>shape = [1, 2], data = [1, 0]\<rparr> [1 / 2, 0]
       = Inr \<lparr>shape = [1], data = [- 1]\<rparr>
   \<and> shifts (Euler (EulerPose_default\<lparr>offset_x := 1 / 2\<rparr>))
        \<lparr>shape = [1, 3], data = [1, 0, 5]\<rparr> = Inl MatmulError"
  by (simp add: shifts_def compute_shifts_def matmul_vec_def EulerPose_default_def rows_1
      exp_minus_i_pi)

text \<open>
  Claim C10. The \<open>degrees\<close> field of \<^verbatim>\<open>EulerPose\<close> defaults to true and the \<open>degrees\<close>
  argument of \<^verbatim>\<open>make_euler_rotation\<close> to false: an \<^verbatim>\<open>EulerPose\<close> with default flags gives
  the rotation \<^verbatim>\<open>make_euler_rotation\<close> gives, with default arguments, for the angles
  converted to radians; and for the angles \<open>(pi, 0, 0)\<close> the two differ (in the quaternion
  implementation: a turn by \<open>pi\<close> degrees against a turn by \<open>pi\<close> radians).
\<close>

theorem euler_default_units_differ:
  "degrees EulerPose_default
   \<and> make_euler_rotation_default lib a b c = make_euler_rotation lib a b c ''zyz'' True False
   \<and> rotation lib (Euler (EulerPose_default\<lparr>view_phi := a, view_theta := b, view_psi := c\<rparr>))
       = make_euler_rotation_default lib (deg2rad a) (deg2rad b) (deg2rad c)
   \<and> (pi, 0, 0) \<noteq> (0 :: real, 0 :: real, 0 :: real)
   \<and> rotation SO3_quat
        (Euler (EulerPose_default\<lparr>view_phi := pi, view_theta := 0, view_psi := 0\<rparr>))
       \<noteq> make_euler_rotation_default SO3_quat pi 0 0"
proof -
  have v: "set ''zyz'' \<subseteq> axis_chars" "3 \<le> length ''zyz''" by (simp_all add: axis_chars_def)
  have r: "make_euler_rotation_default SO3_quat pi 0 0 = Inr (0, 0, 0, 1)"
    by (simp add: make_euler_rotation_default_def make_euler_rotation_axes [OF v]
        spec_euler_rotation_def axis_rotation_def SO3_quat_def quat_mul_def)
  have d: "make_euler_rotation_default SO3_quat (deg2rad pi) (deg2rad 0) (deg2rad 0)
      = Inr (cos (pi * (pi / 180) / 2), 0, 0, sin (pi * (pi / 180) / 2))"
    by (simp add: make_euler_rotation_default_def make_euler_rotation_axes [OF v]
        spec_euler_rotation_def axis_rotation_def SO3_quat_def quat_mul_def deg2rad_def)
  have "cos (pi * (pi / 180) / 2) \<noteq> 0" using cos_pi_degrees_pos by simp
  then have "make_euler_rotation_default SO3_quat (deg2rad pi) (deg2rad 0) (deg2rad 0)
      \<noteq> make_euler_rotation_default SO3_quat pi 0 0"
    by (simp only: r d) simp
  then have n: "rotation SO3_quat
        (Euler (EulerPose_default\<lparr>view_phi := pi, view_theta := 0, view_psi := 0\<rparr>))
       \<noteq> make_euler_rotation_default SO3_quat pi 0 0"
    by (subst euler_default_rotation)
  have g: "degrees EulerPose_default" by (simp add: EulerPose_default_def)
  have m: "make_euler_rotation_default lib a b c
      = make_euler_rotation lib a b c ''zyz'' True False"
    by (simp only: make_euler_rotation_default_def)
  have z: "(pi, 0, 0) \<noteq> (0 :: real, 0 :: real, 0 :: real)" by simp
  from g m euler_default_rotation [where lib = lib and a = a and b = b and c = c] z n
  show ?thesis by blast
qed

theorem euler_default_units_differ_witness:
  "rotation SO3_quat
     (Euler (EulerPose_default\<lparr>view_phi := 180, view_theta := 0, view_psi := 0\<rparr>))
     = make_euler_rotation_default SO3_quat pi 0 0
   \<and> rotation SO3_quat
       (Euler (EulerPose_default\<lparr>view_phi := pi, view_theta := 0, view_psi := 0\<rparr>))
     \<noteq> make_euler_rotation_default SO3_quat pi 0 0"
  using euler_default_units_differ [where lib = SO3_quat and a = 180 and b = 0 and c = 0]
  by (simp add: deg2rad_def)

end
